theory Spec2Isabelle
  imports Complex_Main
begin

section \<open>Python values, exceptions and slices\<close>

text \<open>
  The services of the assistant exchange dictionaries, lists, strings and floats. A
  dictionary is an association list in the order of its literal, read with \<open>map_of\<close>.
  Floats are modelled by the reals: the code only passes them on and compares them with
  constants, except in the cosine similarity, where the reals stand for exact arithmetic.
\<close>

datatype pyval =
    PyNone
  | PyBool bool
  | PyInt int
  | PyFloat real
  | PyStr string
  | PyList "pyval list"
  | PyDict "(string \<times> pyval) list"

type_synonym pydict = "(string \<times> pyval) list"

type_synonym vector = "real list"

definition py_vector :: "vector \<Rightarrow> pyval" where
  "py_vector v = PyList (map PyFloat v)"

text \<open>An exception is its class and the text that \<open>str(e)\<close> gives.\<close>

datatype exn_class =
    AttributeError
  | NameError
  | RuntimeError
  | ValueError
  | KeyError
  | IndexError
  | TypeError
  | ZeroDivisionError
  | ConnectionError
  | OtherError

datatype exn = Raise exn_class string

fun str_exn :: "exn \<Rightarrow> string" where
  "str_exn (Raise c msg) = msg"

text \<open>
  Slice bounds as Python normalises them: a negative bound counts from the end, and
  every bound is clamped to the length.
\<close>

definition py_index :: "nat \<Rightarrow> int \<Rightarrow> nat" where
  "py_index n i = (if i < 0 then nat (max 0 (int n + i)) else min n (nat i))"

definition py_slice :: "'a list \<Rightarrow> int \<Rightarrow> int \<Rightarrow> 'a list" where
  "py_slice xs a b =
     (let lo = py_index (length xs) a; hi = py_index (length xs) b
      in take (hi - lo) (drop lo xs))"

definition py_slice_from :: "'a list \<Rightarrow> int \<Rightarrow> 'a list" where
  "py_slice_from xs a = drop (py_index (length xs) a) xs"

section \<open>The conversation history of the RAG controller\<close>

text \<open>A turn is the dictionary \<open>{"role": ..., "content": ...}\<close>.\<close>

record message =
  role :: string
  content :: string

text \<open>
  \<open>_update_conversation_history\<close>: two appends, then the slice \<open>[-20:]\<close> when the
  list has more than 20 entries.
\<close>

definition update_conversation_history ::
  "message list \<Rightarrow> string \<Rightarrow> string \<Rightarrow> message list" where
  "update_conversation_history conversation_history question response =
     (let h1 = conversation_history @ [\<lparr>role = ''user'', content = question\<rparr>];
          h2 = h1 @ [\<lparr>role = ''assistant'', content = response\<rparr>]
      in if length h2 > 20 then py_slice_from h2 (- 20) else h2)"

text \<open>
  The services the controller is constructed with. Each may raise; the generator of the
  language-model service is the list of fragments it yields and the exception, if any,
  that ends it.
\<close>

record services =
  generate_embedding :: "string \<Rightarrow> exn + vector"
  search_similar_documents_of :: "vector \<Rightarrow> int \<Rightarrow> real \<Rightarrow> exn + pydict list"
  generate_response :: "string \<Rightarrow> pydict list \<Rightarrow> message list \<Rightarrow> exn + string"
  llm_stream_response :: "string \<Rightarrow> pydict list \<Rightarrow> message list \<Rightarrow> string list \<times> exn option"

text \<open>Steps 1 and 2 of both entry points: the context documents of a question.\<close>

definition retrieve_context ::
  "services \<Rightarrow> string \<Rightarrow> bool \<Rightarrow> real \<Rightarrow> int \<Rightarrow> exn + pydict list" where
  "retrieve_context svc question use_context similarity_threshold max_context_docs =
     (if use_context then
        (case generate_embedding svc question of
           Inl e \<Rightarrow> Inl e
         | Inr query_embedding \<Rightarrow>
             search_similar_documents_of svc query_embedding max_context_docs similarity_threshold)
      else Inr [])"

text \<open>The body of the \<open>try\<close> of \<open>ask_question\<close>: the result and the new history.\<close>

definition ask_question_try ::
  "services \<Rightarrow> message list \<Rightarrow> string \<Rightarrow> bool \<Rightarrow> real \<Rightarrow> int \<Rightarrow> exn + (pydict \<times> message list)" where
  "ask_question_try svc conversation_history question use_context similarity_threshold max_context_docs =
     (case retrieve_context svc question use_context similarity_threshold max_context_docs of
        Inl e \<Rightarrow> Inl e
      | Inr context_docs \<Rightarrow>
          (case generate_response svc question context_docs conversation_history of
             Inl e \<Rightarrow> Inl e
           | Inr response \<Rightarrow>
               Inr ([(''response'', PyStr response),
                     (''context_used'', PyBool (length context_docs > 0)),
                     (''context_docs'', PyList (map PyDict context_docs))],
                    update_conversation_history conversation_history question response)))"

definition ask_question ::
  "services \<Rightarrow> message list \<Rightarrow> string \<Rightarrow> bool \<Rightarrow> real \<Rightarrow> int \<Rightarrow> pydict \<times> message list" where
  "ask_question svc conversation_history question use_context similarity_threshold max_context_docs =
     (case ask_question_try svc conversation_history question use_context
             similarity_threshold max_context_docs of
        Inr r \<Rightarrow> r
      | Inl e \<Rightarrow>
          ([(''response'', PyStr (''I encountered an error: '' @ str_exn e)),
            (''error'', PyStr (str_exn e))],
           conversation_history))"

text \<open>
  \<open>stream_response\<close> is a generator: the model gives the fragments it yields, the
  exception that ends it (\<open>None\<close> when it finishes), and the new history. The handler
  yields the error text and then evaluates \<open>error_message\<close>, a name bound nowhere in
  the function or the module.
\<close>

definition stream_response_try ::
  "services \<Rightarrow> message list \<Rightarrow> string \<Rightarrow> bool \<Rightarrow> real \<Rightarrow> int \<Rightarrow> exn + (string \<times> message list)" where
  "stream_response_try svc conversation_history question use_context similarity_threshold max_context_docs =
     (case retrieve_context svc question use_context similarity_threshold max_context_docs of
        Inl e \<Rightarrow> Inl e
      | Inr context_docs \<Rightarrow>
          (case llm_stream_response svc question context_docs conversation_history of
             (fragments, Some e) \<Rightarrow> Inl e
           | (fragments, None) \<Rightarrow>
               (let full_response = concat fragments
                in Inr (full_response,
                        update_conversation_history conversation_history question full_response))))"

definition stream_response ::
  "services \<Rightarrow> message list \<Rightarrow> string \<Rightarrow> bool \<Rightarrow> real \<Rightarrow> int
     \<Rightarrow> string list \<times> exn option \<times> message list" where
  "stream_response svc conversation_history question use_context similarity_threshold max_context_docs =
     (case stream_response_try svc conversation_history question use_context
             similarity_threshold max_context_docs of
        Inr (full_response, history') \<Rightarrow> ([full_response], None, history')
      | Inl e \<Rightarrow>
          ([''I encountered an error: '' @ str_exn e],
           Some (Raise NameError ''name error_message is not defined''),
           conversation_history))"

section \<open>The database service\<close>

text \<open>
  The Supabase client is outside the repository: it is a parameter, a record of the three
  requests the service makes, each a transition of the store's state that returns the
  \<open>data\<close> of the response (\<open>None\<close> or a list of rows) or raises. Every request
  is logged with its answer, so that a theorem can say which requests were made.
\<close>

type_synonym response_data = "pydict list option"

record 's client =
  rpc_search_documents_cosine :: "vector \<Rightarrow> real \<Rightarrow> int \<Rightarrow> 's \<Rightarrow> (exn + response_data) \<times> 's"
  select_all_limit :: "int \<Rightarrow> 's \<Rightarrow> (exn + response_data) \<times> 's"
  insert_documents :: "pydict list \<Rightarrow> 's \<Rightarrow> (exn + response_data) \<times> 's"

datatype store_call =
    Rpc_search vector real int
  | Select_limit int
  | Insert_rows "pydict list"

record 's world =
  store :: 's
  calls :: "(store_call \<times> (exn + response_data)) list"

definition call_rpc ::
  "'s client \<Rightarrow> vector \<Rightarrow> real \<Rightarrow> int \<Rightarrow> 's world \<Rightarrow> (exn + response_data) \<times> 's world" where
  "call_rpc c query_embedding similarity_threshold max_results w =
     (case rpc_search_documents_cosine c query_embedding similarity_threshold max_results (store w) of
        (r, s') \<Rightarrow>
          (r, \<lparr>store = s',
               calls = calls w @ [(Rpc_search query_embedding similarity_threshold max_results, r)]\<rparr>))"

definition call_select ::
  "'s client \<Rightarrow> int \<Rightarrow> 's world \<Rightarrow> (exn + response_data) \<times> 's world" where
  "call_select c limit w =
     (case select_all_limit c limit (store w) of
        (r, s') \<Rightarrow> (r, \<lparr>store = s', calls = calls w @ [(Select_limit limit, r)]\<rparr>))"


text \<open>Truth value of \<open>result.data\<close>: \<open>None\<close> and the empty list are false.\<close>

fun truthy :: "response_data \<Rightarrow> bool" where
  "truthy None = False"
| "truthy (Some []) = False"
| "truthy (Some (x # xs)) = True"

fun data_rows :: "response_data \<Rightarrow> pydict list" where
  "data_rows None = []"
| "data_rows (Some rows) = rows"

text \<open>\<open>doc[k]\<close> raises KeyError on a missing key; \<open>doc.get(k, default)\<close> does not.\<close>

definition getitem :: "pydict \<Rightarrow> string \<Rightarrow> exn + pyval" where
  "getitem d k = (case map_of d k of None \<Rightarrow> Inl (Raise KeyError k) | Some v \<Rightarrow> Inr v)"

definition dict_get :: "pydict \<Rightarrow> string \<Rightarrow> pyval \<Rightarrow> pyval" where
  "dict_get d k dflt = (case map_of d k of None \<Rightarrow> dflt | Some v \<Rightarrow> v)"

text \<open>The loop of \<open>_fallback_search\<close> over the rows of the unranked retrieval.\<close>

fun fallback_documents :: "pydict list \<Rightarrow> exn + pydict list" where
  "fallback_documents [] = Inr []"
| "fallback_documents (doc # rest) =
     (case getitem doc ''id'' of
        Inl e \<Rightarrow> Inl e
      | Inr doc_id \<Rightarrow>
          (case getitem doc ''content'' of
             Inl e \<Rightarrow> Inl e
           | Inr doc_content \<Rightarrow>
               (case fallback_documents rest of
                  Inl e \<Rightarrow> Inl e
                | Inr documents \<Rightarrow>
                    Inr ([(''id'', doc_id),
                          (''content'', doc_content),
                          (''similarity'', PyFloat 0.5),
                          (''created_at'', dict_get doc ''created_at'' PyNone)] # documents))))"

definition fallback_search_try ::
  "'s client \<Rightarrow> int \<Rightarrow> 's world \<Rightarrow> (exn + pydict list) \<times> 's world" where
  "fallback_search_try c limit w =
     (case call_select c limit w of
        (Inl e, w1) \<Rightarrow> (Inl e, w1)
      | (Inr data, w1) \<Rightarrow>
          (if truthy data then (fallback_documents (data_rows data), w1)
           else (Inr [], w1)))"

definition fallback_search ::
  "'s client \<Rightarrow> int \<Rightarrow> 's world \<Rightarrow> (exn + pydict list) \<times> 's world" where
  "fallback_search c limit w =
     (case fallback_search_try c limit w of
        (Inl e, w1) \<Rightarrow> (Inr [], w1)
      | (Inr documents, w1) \<Rightarrow> (Inr documents, w1))"

definition search_similar_documents_try ::
  "'s client \<Rightarrow> vector \<Rightarrow> int \<Rightarrow> real \<Rightarrow> 's world \<Rightarrow> (exn + pydict list) \<times> 's world" where
  "search_similar_documents_try c query_embedding limit similarity_threshold w =
     (case call_rpc c query_embedding similarity_threshold limit w of
        (Inl e, w1) \<Rightarrow> (Inl e, w1)
      | (Inr data, w1) \<Rightarrow>
          (if truthy data then (Inr (data_rows data), w1)
           else
             (case call_rpc c query_embedding 0.3 limit w1 of
                (Inl e, w2) \<Rightarrow> (Inl e, w2)
              | (Inr data2, w2) \<Rightarrow>
                  (Inr (if truthy data2 then data_rows data2 else []), w2))))"

definition search_similar_documents ::
  "'s client \<Rightarrow> vector \<Rightarrow> int \<Rightarrow> real \<Rightarrow> 's world \<Rightarrow> (exn + pydict list) \<times> 's world" where
  "search_similar_documents c query_embedding limit similarity_threshold w =
     (case search_similar_documents_try c query_embedding limit similarity_threshold w of
        (Inl e, w1) \<Rightarrow> fallback_search c limit w1
      | (Inr documents, w1) \<Rightarrow> (Inr documents, w1))"

text \<open>
  \<open>range(0, n, step)\<close> for \<open>n \<ge> 0\<close>: empty for a negative step, ValueError for step 0.
\<close>

definition py_range0 :: "nat \<Rightarrow> int \<Rightarrow> exn + int list" where
  "py_range0 n step =
     (if step = 0 then Inl (Raise ValueError ''range() arg 3 must not be zero'')
      else if step < 0 then Inr []
      else Inr (map (\<lambda>k. int k * step) [0 ..< nat ((int n + step - 1) div step)]))"






section \<open>The memory optimizer and the embedding service\<close>

text \<open>
  The class \<open>MemoryOptimizer\<close> has four methods and no instance attribute; each
  method takes \<open>self\<close> alone. Looking up any other name on the global instance
  \<open>memory_optimizer\<close> raises AttributeError, and calling one of the four methods with
  a further argument raises TypeError.
\<close>

datatype optimizer_method =
    Optimize_gc
  | Get_memory_stats
  | Clear_embedding_cache
  | Clear_all_caches

definition memory_optimizer_getattr :: "string \<Rightarrow> exn + optimizer_method" where
  "memory_optimizer_getattr name =
     (if name = ''optimize_gc'' then Inr Optimize_gc
      else if name = ''get_memory_stats'' then Inr Get_memory_stats
      else if name = ''clear_embedding_cache'' then Inr Clear_embedding_cache
      else if name = ''clear_all_caches'' then Inr Clear_all_caches
      else Inl (Raise AttributeError name))"

definition call_with_arguments :: "optimizer_method \<Rightarrow> pyval \<Rightarrow> pyval list \<Rightarrow> exn + pyval" where
  "call_with_arguments m arg args =
     Inl (Raise TypeError ''takes 1 positional argument but more were given'')"

definition memory_optimizer_call :: "string \<Rightarrow> pyval \<Rightarrow> pyval list \<Rightarrow> exn + pyval" where
  "memory_optimizer_call name arg args =
     (case memory_optimizer_getattr name of
        Inl e \<Rightarrow> Inl e
      | Inr m \<Rightarrow> call_with_arguments m arg args)"

text \<open>
  The first loop of \<open>generate_embeddings_batch\<close>: each text is looked up with
  \<open>memory_optimizer.get_cached_embedding(text)\<close>.
\<close>

fun probe_cache ::
  "string list \<Rightarrow> nat \<Rightarrow> pyval list \<Rightarrow> string list \<Rightarrow> nat list
     \<Rightarrow> exn + (pyval list \<times> string list \<times> nat list)" where
  "probe_cache [] i all_embeddings uncached_texts uncached_indices =
     Inr (all_embeddings, uncached_texts, uncached_indices)"
| "probe_cache (text # rest) i all_embeddings uncached_texts uncached_indices =
     (case memory_optimizer_call ''get_cached_embedding'' (PyStr text) [] of
        Inl e \<Rightarrow> Inl e
      | Inr cached_embedding \<Rightarrow>
          (if cached_embedding \<noteq> PyNone
           then probe_cache rest (i + 1) (all_embeddings @ [cached_embedding])
                  uncached_texts uncached_indices
           else probe_cache rest (i + 1) (all_embeddings @ [PyNone])
                  (uncached_texts @ [text]) (uncached_indices @ [i])))"

text \<open>The loop that stores the new vectors of one sub-batch.\<close>

fun cache_new_embeddings :: "string list \<Rightarrow> pyval list \<Rightarrow> exn + unit" where
  "cache_new_embeddings [] batch_list = Inr ()"
| "cache_new_embeddings (text # rest) [] = Inl (Raise IndexError ''list index out of range'')"
| "cache_new_embeddings (text # rest) (v # vs) =
     (case memory_optimizer_call ''cache_embedding'' (PyStr text) [v] of
        Inl e \<Rightarrow> Inl e
      | Inr r \<Rightarrow> cache_new_embeddings rest vs)"

text \<open>
  The loop over the sub-batches. The embedding model is a parameter: \<open>encode\<close> takes
  the texts and the batch size. The second component of the result lists the batches of
  texts sent to the model.
\<close>

fun encode_batches ::
  "(string list \<Rightarrow> int \<Rightarrow> exn + vector list) \<Rightarrow> string list \<Rightarrow> int \<Rightarrow> int list
     \<Rightarrow> pyval list \<Rightarrow> string list list \<Rightarrow> (exn + pyval list) \<times> string list list" where
  "encode_batches encode uncached_texts batch_size [] uncached_embeddings sent =
     (Inr uncached_embeddings, sent)"
| "encode_batches encode uncached_texts batch_size (i # starts) uncached_embeddings sent =
     (let batch_texts = py_slice uncached_texts i (i + batch_size)
      in case encode batch_texts (min batch_size (int (length batch_texts))) of
           Inl e \<Rightarrow> (Inl e, sent @ [batch_texts])
         | Inr batch_embeddings \<Rightarrow>
             (let batch_list = map py_vector batch_embeddings
              in case cache_new_embeddings batch_texts batch_list of
                   Inl e \<Rightarrow> (Inl e, sent @ [batch_texts])
                 | Inr u \<Rightarrow>
                     encode_batches encode uncached_texts batch_size starts
                       (uncached_embeddings @ batch_list) (sent @ [batch_texts])))"

text \<open>The loop that writes the new vectors over the placeholders.\<close>

fun fill_in :: "pyval list \<Rightarrow> nat list \<Rightarrow> pyval list \<Rightarrow> exn + pyval list" where
  "fill_in all_embeddings uncached_indices [] = Inr all_embeddings"
| "fill_in all_embeddings [] (embedding # rest) =
     Inl (Raise IndexError ''list index out of range'')"
| "fill_in all_embeddings (k # uncached_indices) (embedding # rest) =
     fill_in (all_embeddings[k := embedding]) uncached_indices rest"

definition generate_embeddings_batch_try ::
  "(string list \<Rightarrow> int \<Rightarrow> exn + vector list) \<Rightarrow> string list \<Rightarrow> int
     \<Rightarrow> (exn + pyval list) \<times> string list list" where
  "generate_embeddings_batch_try encode texts batch_size =
     (case probe_cache texts 0 [] [] [] of
        Inl e \<Rightarrow> (Inl e, [])
      | Inr (all_embeddings, uncached_texts, uncached_indices) \<Rightarrow>
          (if uncached_texts \<noteq> [] then
             (case py_range0 (length uncached_texts) batch_size of
                Inl e \<Rightarrow> (Inl e, [])
              | Inr starts \<Rightarrow>
                  (case encode_batches encode uncached_texts batch_size starts [] [] of
                     (Inl e, sent) \<Rightarrow> (Inl e, sent)
                   | (Inr uncached_embeddings, sent) \<Rightarrow>
                       (fill_in all_embeddings uncached_indices uncached_embeddings, sent)))
           else (Inr all_embeddings, [])))"

text \<open>
  \<open>generate_embeddings_batch\<close>: \<open>self.model\<close> is \<open>None\<close> or the loaded model; any
  exception of the body is replaced by a RuntimeError. The garbage collection after a
  large batch changes neither the result nor the requests to the model.
\<close>

definition generate_embeddings_batch ::
  "(string list \<Rightarrow> int \<Rightarrow> exn + vector list) option \<Rightarrow> string list \<Rightarrow> int
     \<Rightarrow> (exn + pyval list) \<times> string list list" where
  "generate_embeddings_batch model texts batch_size =
     (case model of
        None \<Rightarrow> (Inl (Raise RuntimeError ''Embedding model not loaded''), [])
      | Some encode \<Rightarrow>
          (case generate_embeddings_batch_try encode texts batch_size of
             (Inl e, sent) \<Rightarrow> (Inl (Raise RuntimeError ''Failed to generate batch embeddings''), sent)
           | (Inr all_embeddings, sent) \<Rightarrow> (Inr all_embeddings, sent)))"

text \<open>
  \<open>calculate_similarity\<close>: \<open>np.dot\<close> of two one-dimensional arrays raises ValueError
  when their lengths differ; the handler turns it into a RuntimeError.
\<close>

definition np_dot :: "vector \<Rightarrow> vector \<Rightarrow> exn + real" where
  "np_dot vec1 vec2 =
     (if length vec1 \<noteq> length vec2 then Inl (Raise ValueError ''shapes not aligned'')
      else Inr (sum_list (map (\<lambda>(x, y). x * y) (zip vec1 vec2))))"

definition linalg_norm :: "vector \<Rightarrow> real" where
  "linalg_norm v = sqrt (sum_list (map (\<lambda>x. x * x) v))"

definition calculate_similarity :: "vector \<Rightarrow> vector \<Rightarrow> exn + real" where
  "calculate_similarity embedding1 embedding2 =
     (case np_dot embedding1 embedding2 of
        Inl e \<Rightarrow> Inl (Raise RuntimeError ''Failed to calculate similarity'')
      | Inr dot_product \<Rightarrow>
          (let norm1 = linalg_norm embedding1; norm2 = linalg_norm embedding2
           in if norm1 = 0 \<or> norm2 = 0 then Inr 0
              else Inr (dot_product / (norm1 * norm2))))"

section \<open>Text chunking\<close>

text \<open>
  A character stands for a code point below 256. \<open>py_isspace\<close> is the whitespace of
  \<open>str.strip\<close> and of the pattern \<open>\s\<close>; \<open>re_word\<close> is the pattern \<open>\w\<close>.
\<close>

definition py_isspace :: "char \<Rightarrow> bool" where
  "py_isspace c =
     (let n = (of_char c :: nat)
      in (9 \<le> n \<and> n \<le> 13) \<or> (28 \<le> n \<and> n \<le> 32) \<or> n = 133 \<or> n = 160)"

definition re_word :: "char \<Rightarrow> bool" where
  "re_word c =
     (let n = (of_char c :: nat)
      in (48 \<le> n \<and> n \<le> 57) \<or> (65 \<le> n \<and> n \<le> 90) \<or> n = 95 \<or> (97 \<le> n \<and> n \<le> 122)
         \<or> n = 170 \<or> n = 178 \<or> n = 179 \<or> n = 181 \<or> n = 185 \<or> n = 186
         \<or> (188 \<le> n \<and> n \<le> 190) \<or> (192 \<le> n \<and> n \<le> 214)
         \<or> (216 \<le> n \<and> n \<le> 246) \<or> (248 \<le> n \<and> n \<le> 255))"

definition re_upper :: "char \<Rightarrow> bool" where
  "re_upper c = (let n = (of_char c :: nat) in 65 \<le> n \<and> n \<le> 90)"

definition re_lower :: "char \<Rightarrow> bool" where
  "re_lower c = (let n = (of_char c :: nat) in 97 \<le> n \<and> n \<le> 122)"

definition py_strip :: "string \<Rightarrow> string" where
  "py_strip s = rev (dropWhile py_isspace (rev (dropWhile py_isspace s)))"

text \<open>
  The three look-behinds of the sentence pattern, on the characters before the current
  position, nearest first: the position follows one of \<open>.!?\<close>, does not follow an
  upper-case letter, a lower-case letter and a full stop, and does not follow a word
  character, a full stop, a word character and any character but a newline.
\<close>

fun sentence_end_before :: "string \<Rightarrow> bool" where
  "sentence_end_before [] = False"
| "sentence_end_before (p # ps) = (p = CHR ''.'' \<or> p = CHR ''!'' \<or> p = CHR ''?'')"

fun title_before :: "string \<Rightarrow> bool" where
  "title_before (p1 # p2 # p3 # ps) = (p1 = CHR ''.'' \<and> re_lower p2 \<and> re_upper p3)"
| "title_before ps = False"

fun dotted_before :: "string \<Rightarrow> bool" where
  "dotted_before (p1 # p2 # p3 # p4 # ps) =
     (p1 \<noteq> CHR 0x0A \<and> re_word p2 \<and> p3 = CHR ''.'' \<and> re_word p4)"
| "dotted_before ps = False"

text \<open>
  \<open>re.split\<close> with that pattern: every whitespace character at which the look-behinds
  hold ends a piece. \<open>seen\<close> holds the text read so far, reversed; \<open>piece\<close> is the
  current piece.
\<close>

fun re_split :: "string \<Rightarrow> string \<Rightarrow> string \<Rightarrow> string list" where
  "re_split seen piece [] = [piece]"
| "re_split seen piece (c # rest) =
     (if py_isspace c \<and> sentence_end_before seen
         \<and> \<not> title_before seen \<and> \<not> dotted_before seen
      then piece # re_split (c # seen) [] rest
      else re_split (c # seen) (piece @ [c]) rest)"

definition split_into_sentences :: "string \<Rightarrow> string list" where
  "split_into_sentences text =
     map py_strip (filter (\<lambda>s. py_strip s \<noteq> []) (re_split [] [] text))"

text \<open>The loop of \<open>chunk_text\<close> over the sentences: the chunks and the running chunk.\<close>

fun sentence_loop ::
  "int \<Rightarrow> int \<Rightarrow> string list \<Rightarrow> string \<Rightarrow> string list \<Rightarrow> string list \<times> string" where
  "sentence_loop chunk_size overlap [] current_chunk chunks = (chunks, current_chunk)"
| "sentence_loop chunk_size overlap (sentence # rest) current_chunk chunks =
     (if int (length current_chunk) + int (length sentence) > chunk_size \<and> current_chunk \<noteq> []
      then sentence_loop chunk_size overlap rest
             (if overlap > 0 \<and> int (length current_chunk) > overlap
              then py_slice_from current_chunk (- overlap) @ '' '' @ sentence
              else sentence)
             (chunks @ [py_strip current_chunk])
      else sentence_loop chunk_size overlap rest
             (if current_chunk \<noteq> [] then current_chunk @ '' '' @ sentence else sentence)
             chunks)"

text \<open>
  The character window: a \<open>while\<close> loop, which returns \<open>None\<close> when it runs forever.
\<close>

definition next_start :: "int \<Rightarrow> int \<Rightarrow> int \<Rightarrow> int" where
  "next_start chunk_size overlap start =
     (let window_end = start + chunk_size
      in if overlap > 0 then window_end - overlap else window_end)"

partial_function (option) character_loop ::
  "string \<Rightarrow> int \<Rightarrow> int \<Rightarrow> int \<Rightarrow> string list \<Rightarrow> string list option" where
  "character_loop text chunk_size overlap start chunks =
     (if start < int (length text)
      then character_loop text chunk_size overlap (next_start chunk_size overlap start)
             (chunks @ [py_slice text start (start + chunk_size)])
      else Some chunks)"

declare character_loop.simps [code]

definition chunk_text :: "string \<Rightarrow> int \<Rightarrow> int \<Rightarrow> bool \<Rightarrow> string list option" where
  "chunk_text text chunk_size overlap preserve_sentences =
     (if text = [] \<or> int (length text) \<le> chunk_size
      then Some (if text \<noteq> [] then [text] else [])
      else
        map_option (filter (\<lambda>chunk. py_strip chunk \<noteq> []))
          (if preserve_sentences then
             (case sentence_loop chunk_size overlap (split_into_sentences text) [] [] of
                (chunks, current_chunk) \<Rightarrow>
                  Some (if current_chunk \<noteq> [] then chunks @ [py_strip current_chunk] else chunks))
           else character_loop text chunk_size overlap 0 []))"

section \<open>Notions used in the statements\<close>

text \<open>The two turns that one exchange adds to the history.\<close>

definition exchange :: "string \<times> string \<Rightarrow> message list" where
  "exchange qr =
     [\<lparr>role = ''user'', content = fst qr\<rparr>, \<lparr>role = ''assistant'', content = snd qr\<rparr>]"


text \<open>The logged requests that went to the ranked search.\<close>

fun is_rpc :: "store_call \<times> (exn + response_data) \<Rightarrow> bool" where
  "is_rpc (Rpc_search q t l, r) = True"
| "is_rpc (other, r) = False"

section \<open>The conversation history is capped at 20 turns\<close>

lemma update_conversation_history_eq:
  "update_conversation_history h q r =
     (let h2 = h @ exchange (q, r) in drop (length h2 - 20) h2)"
  by (auto simp: update_conversation_history_def py_slice_from_def py_index_def Let_def
      exchange_def nat_diff_distrib' intro!: arg_cong2 [where f = drop])

lemma length_update_conversation_history:
  "length (update_conversation_history h q r) \<le> 20"
  by (simp add: update_conversation_history_eq Let_def exchange_def)

lemma drop_last_append:
  "drop (length (drop (length xs - n) xs @ ys) - n) (drop (length xs - n) xs @ ys)
     = drop (length (xs @ ys) - n) (xs @ ys)"
  by (cases "length xs \<le> n") (auto simp: add.commute)

lemma foldl_update_conversation_history:
  "foldl (\<lambda>h qr. update_conversation_history h (fst qr) (snd qr)) (drop (length h0 - 20) h0) qrs
     = drop (length (h0 @ concat (map exchange qrs)) - 20) (h0 @ concat (map exchange qrs))"
proof (induction qrs arbitrary: h0)
  case Nil
  then show ?case by simp
next
  case (Cons qr qrs)
  have "update_conversation_history (drop (length h0 - 20) h0) (fst qr) (snd qr)
        = drop (length (h0 @ exchange qr) - 20) (h0 @ exchange qr)"
    unfolding update_conversation_history_eq Let_def
    using drop_last_append [of h0 20 "exchange qr"] by simp
  then show ?case using Cons.IH [of "h0 @ exchange qr"] by simp
qed

lemma length_concat_exchange: "length (concat (map exchange qrs)) = 2 * length qrs"
  by (induction qrs) (auto simp: exchange_def)

lemma drop_concat_exchange:
  "drop (2 * k) (concat (map exchange qrs)) = concat (map exchange (drop k qrs))"
proof (induction qrs arbitrary: k)
  case Nil
  then show ?case by simp
next
  case (Cons qr qrs)
  show ?case
  proof (cases k)
    case 0
    then show ?thesis by simp
  next
    case (Suc j)
    have "length (exchange qr) = 2" by (simp add: exchange_def)
    then show ?thesis using Suc Cons.IH [of j] by simp
  qed
qed

lemma history_after_exchanges:
  "foldl (\<lambda>h qr. update_conversation_history h (fst qr) (snd qr)) [] qrs
     = concat (map exchange (drop (length qrs - 10) qrs))"
proof -
  have "2 * length qrs - 20 = 2 * (length qrs - 10)" by simp
  then show ?thesis
    using foldl_update_conversation_history [of "[]" qrs]
    by (simp add: length_concat_exchange drop_concat_exchange)
qed

lemma ask_question_success:
  assumes "map_of (fst (ask_question svc h q uc thr n)) ''error'' = None"
  shows "\<exists>r. map_of (fst (ask_question svc h q uc thr n)) ''response'' = Some (PyStr r)
           \<and> snd (ask_question svc h q uc thr n) = update_conversation_history h q r"
  using assms
  by (auto simp: ask_question_def ask_question_try_def split: sum.splits)

lemma length_ask_question:
  "length h \<le> 20 \<Longrightarrow> length (snd (ask_question svc h q uc thr n)) \<le> 20"
  by (auto simp: ask_question_def ask_question_try_def length_update_conversation_history
      split: sum.splits)

text \<open>
  Claim C9. An ask that succeeds (its result has no \<open>error\<close> field) appends the user
  turn with the question and then the assistant turn with the response, and keeps the
  most recent 20 entries of the result. The history never has more than 20 entries. After
  any sequence of exchanges from an empty history, the history is the turns of the most
  recent 10 exchanges; after 25 of them it has 20 entries, those of exchanges 16 to 25.
\<close>

theorem conversation_history_capped:
  "(map_of (fst (ask_question svc h q uc thr n)) ''error'' = None \<longrightarrow>
      (\<exists>r. map_of (fst (ask_question svc h q uc thr n)) ''response'' = Some (PyStr r)
         \<and> snd (ask_question svc h q uc thr n)
             = drop (length (h @ exchange (q, r)) - 20) (h @ exchange (q, r))))
   \<and> (length h \<le> 20 \<longrightarrow> length (snd (ask_question svc h q uc thr n)) \<le> 20)
   \<and> length (update_conversation_history h q r) \<le> 20
   \<and> foldl (\<lambda>h qr. update_conversation_history h (fst qr) (snd qr)) [] qrs
        = concat (map exchange (drop (length qrs - 10) qrs))
   \<and> (length qrs = 25 \<longrightarrow>
        foldl (\<lambda>h qr. update_conversation_history h (fst qr) (snd qr)) [] qrs
          = concat (map exchange (drop 15 qrs))
        \<and> length (foldl (\<lambda>h qr. update_conversation_history h (fst qr) (snd qr)) [] qrs) = 20)"
proof (intro conjI impI)
  assume "map_of (fst (ask_question svc h q uc thr n)) ''error'' = None"
  from ask_question_success [OF this]
  show "\<exists>r. map_of (fst (ask_question svc h q uc thr n)) ''response'' = Some (PyStr r)
         \<and> snd (ask_question svc h q uc thr n)
             = drop (length (h @ exchange (q, r)) - 20) (h @ exchange (q, r))"
    by (simp add: update_conversation_history_eq Let_def)
next
  assume "length h \<le> 20"
  then show "length (snd (ask_question svc h q uc thr n)) \<le> 20"
    by (rule length_ask_question)
next
  show "length (update_conversation_history h q r) \<le> 20"
    by (rule length_update_conversation_history)
next
  show "foldl (\<lambda>h qr. update_conversation_history h (fst qr) (snd qr)) [] qrs
        = concat (map exchange (drop (length qrs - 10) qrs))"
    by (rule history_after_exchanges)
next
  assume l: "length qrs = 25"
  then show "foldl (\<lambda>h qr. update_conversation_history h (fst qr) (snd qr)) [] qrs
          = concat (map exchange (drop 15 qrs))"
    by (simp add: history_after_exchanges)
  from l show "length (foldl (\<lambda>h qr. update_conversation_history h (fst qr) (snd qr)) [] qrs) = 20"
    by (simp add: history_after_exchanges length_concat_exchange)
qed

theorem conversation_history_capped_witness:
  "snd (ask_question
          \<lparr>generate_embedding = (\<lambda>question. Inr [1]),
           search_similar_documents_of = (\<lambda>v limit t. Inr []),
           generate_response = (\<lambda>question context h. Inr ''ok''),
           llm_stream_response = (\<lambda>question context h. ([''ok''], None))\<rparr>
          [] ''hi'' True 0.6 5)
     = [\<lparr>role = ''user'', content = ''hi''\<rparr>, \<lparr>role = ''assistant'', content = ''ok''\<rparr>]
   \<and> length (replicate 25 (''q'', ''a'')) = 25
   \<and> length (foldl (\<lambda>h qr. update_conversation_history h (fst qr) (snd qr)) []
               (replicate 25 (''q'', ''a''))) = 20"
proof -
  have l: "length (replicate 25 (''q'', ''a'')) = 25" by simp
  have e: "map_of (fst (ask_question
          \<lparr>generate_embedding = (\<lambda>question. Inr [1]),
           search_similar_documents_of = (\<lambda>v limit t. Inr []),
           generate_response = (\<lambda>question context h. Inr ''ok''),
           llm_stream_response = (\<lambda>question context h. ([''ok''], None))\<rparr>
          [] ''hi'' True 0.6 5)) ''error'' = None"
    by (simp add: ask_question_def ask_question_try_def retrieve_context_def)
  note t = conversation_history_capped
    [of "\<lparr>generate_embedding = (\<lambda>question. Inr [1]),
           search_similar_documents_of = (\<lambda>v limit t. Inr []),
           generate_response = (\<lambda>question context h. Inr ''ok''),
           llm_stream_response = (\<lambda>question context h. ([''ok''], None))\<rparr>"
        "[]" "''hi''" True "0.6" 5 "''ok''" "replicate 25 (''q'', ''a'')"]
  from t e obtain r where
    r: "map_of (fst (ask_question
          \<lparr>generate_embedding = (\<lambda>question. Inr [1]),
           search_similar_documents_of = (\<lambda>v limit t. Inr []),
           generate_response = (\<lambda>question context h. Inr ''ok''),
           llm_stream_response = (\<lambda>question context h. ([''ok''], None))\<rparr>
          [] ''hi'' True 0.6 5)) ''response'' = Some (PyStr r)"
    and s: "snd (ask_question
          \<lparr>generate_embedding = (\<lambda>question. Inr [1]),
           search_similar_documents_of = (\<lambda>v limit t. Inr []),
           generate_response = (\<lambda>question context h. Inr ''ok''),
           llm_stream_response = (\<lambda>question context h. ([''ok''], None))\<rparr>
          [] ''hi'' True 0.6 5)
        = drop (length ([] @ exchange (''hi'', r)) - 20) ([] @ exchange (''hi'', r))"
    by blast
  from r have "r = ''ok''"
    by (simp add: ask_question_def ask_question_try_def retrieve_context_def)
  with s have a: "snd (ask_question
          \<lparr>generate_embedding = (\<lambda>question. Inr [1]),
           search_similar_documents_of = (\<lambda>v limit t. Inr []),
           generate_response = (\<lambda>question context h. Inr ''ok''),
           llm_stream_response = (\<lambda>question context h. ([''ok''], None))\<rparr>
          [] ''hi'' True 0.6 5)
     = [\<lparr>role = ''user'', content = ''hi''\<rparr>, \<lparr>role = ''assistant'', content = ''ok''\<rparr>]"
    by (simp add: exchange_def)
  from t l have c: "length (foldl (\<lambda>h qr. update_conversation_history h (fst qr) (snd qr)) []
               (replicate 25 (''q'', ''a''))) = 20"
    by blast
  show ?thesis using a l c by blast
qed

section \<open>The character window of the chunker terminates\<close>

lemma next_start_eq:
  "0 \<le> overlap \<Longrightarrow> next_start chunk_size overlap start = start + (chunk_size - overlap)"
  by (simp add: next_start_def Let_def)

lemma character_loop_terminates:
  assumes "0 \<le> overlap" "overlap < chunk_size"
  shows "\<exists>r. character_loop text chunk_size overlap start chunks = Some r"
proof (induction "nat (int (length text) - start)" arbitrary: start chunks rule: less_induct)
  case less
  show ?case
  proof (cases "start < int (length text)")
    case False
    then show ?thesis by (subst character_loop.simps) simp
  next
    case True
    have "nat (int (length text) - next_start chunk_size overlap start) < nat (int (length text) - start)"
      using True assms by (simp add: next_start_eq)
    from less [OF this] obtain r where
      "character_loop text chunk_size overlap (next_start chunk_size overlap start)
         (chunks @ [py_slice text start (start + chunk_size)]) = Some r" by blast
    then show ?thesis using True by (subst character_loop.simps) simp
  qed
qed

lemma character_loop_returns_only_past_the_end:
  assumes "character_loop tx chunk_size overlap start chunks = Some r"
  shows "\<not> (0 < chunk_size \<and> chunk_size \<le> overlap \<and> start < int (length tx))"
proof (rule character_loop.raw_induct
    [where P = "\<lambda>a b c d e y. \<not> (0 < b \<and> b \<le> c \<and> d < int (length a))", OF _ assms])
  fix f :: "string \<Rightarrow> int \<Rightarrow> int \<Rightarrow> int \<Rightarrow> string list \<Rightarrow> string list option"
  fix a b c d e y
  assume IH: "\<And>a b c d e y. f a b c d e = Some y \<Longrightarrow> \<not> (0 < b \<and> b \<le> c \<and> d < int (length a))"
  assume eq: "(if d < int (length a)
      then f a b c (next_start b c d) (e @ [py_slice a d (d + b)])
      else Some e) = Some y"
  show "\<not> (0 < b \<and> b \<le> c \<and> d < int (length a))"
  proof
    assume h: "0 < b \<and> b \<le> c \<and> d < int (length a)"
    then have n: "next_start b c d < int (length a)"
      by (simp add: next_start_def Let_def)
    from h eq have "f a b c (next_start b c d) (e @ [py_slice a d (d + b)]) = Some y" by simp
    from IH [OF this] h n show False by simp
  qed
qed

lemma character_loop_diverges:
  "0 < chunk_size \<Longrightarrow> chunk_size \<le> overlap \<Longrightarrow> start < int (length text)
     \<Longrightarrow> character_loop text chunk_size overlap start chunks = None"
  using character_loop_returns_only_past_the_end [of "text" chunk_size overlap start chunks]
  by (cases "character_loop text chunk_size overlap start chunks") auto

text \<open>
  Claim C10. With \<open>preserve_sentences\<close> false and \<open>0 \<le> overlap < chunk_size\<close>,
  \<open>chunk_text\<close> returns for every text: each iteration moves the start of the window
  forward by \<open>chunk_size - overlap\<close>, which is positive. The bound on the overlap is
  needed: with \<open>0 < chunk_size \<le> overlap\<close> the loop never ends on a text longer than
  \<open>chunk_size\<close>.
\<close>

theorem chunk_text_characters_terminates:
  "(0 \<le> overlap \<and> overlap < chunk_size \<longrightarrow>
      (\<exists>chunks. chunk_text text chunk_size overlap False = Some chunks)
      \<and> next_start chunk_size overlap start = start + (chunk_size - overlap)
      \<and> start < next_start chunk_size overlap start)
   \<and> (0 < chunk_size \<and> chunk_size \<le> overlap \<and> chunk_size < int (length text) \<longrightarrow>
        chunk_text text chunk_size overlap False = None)"
proof (intro conjI impI)
  assume a: "0 \<le> overlap \<and> overlap < chunk_size"
  obtain r where "character_loop text chunk_size overlap 0 [] = Some r"
    using character_loop_terminates [of overlap chunk_size "text" 0 "[]"] a by blast
  then show "\<exists>chunks. chunk_text text chunk_size overlap False = Some chunks"
    by (simp add: chunk_text_def)
  show "next_start chunk_size overlap start = start + (chunk_size - overlap)"
    using a by (simp add: next_start_eq)
  then show "start < next_start chunk_size overlap start" using a by simp
next
  assume a: "0 < chunk_size \<and> chunk_size \<le> overlap \<and> chunk_size < int (length text)"
  have ne: "text \<noteq> []" using a by auto
  have "0 < int (length text)" using a by linarith
  then have "character_loop text chunk_size overlap 0 [] = None"
    using a by (intro character_loop_diverges) simp_all
  moreover note ne
  ultimately show "chunk_text text chunk_size overlap False = None"
    using a by (auto simp: chunk_text_def)
qed

theorem chunk_text_characters_terminates_witness:
  "chunk_text ''abcdefghij'' 4 1 False = Some [''abcd'', ''defg'', ''ghij'', ''j'']
   \<and> next_start 4 1 0 = 3
   \<and> chunk_text ''abcdefghij'' 4 4 False = None"
proof -
  note t = chunk_text_characters_terminates [of 1 4 "''abcdefghij''" 0]
  have v: "chunk_text ''abcdefghij'' 4 1 False = Some [''abcd'', ''defg'', ''ghij'', ''j'']"
    by (simp add: chunk_text_def character_loop.simps next_start_def py_slice_def
        py_index_def py_strip_def py_isspace_def)
  from t have n: "next_start 4 1 0 = 3" by simp
  have d: "chunk_text ''abcdefghij'' 4 4 False = None"
    using chunk_text_characters_terminates [of 4 4 "''abcdefghij''" 0] by simp
  show ?thesis using v n d by blast
qed

section \<open>The similarity search degrades and never raises\<close>

lemma fallback_documents_similarity:
  "fallback_documents rows = Inr documents \<Longrightarrow> d \<in> set documents
     \<Longrightarrow> map_of d ''similarity'' = Some (PyFloat 0.5)"
  by (induction rows arbitrary: documents) (auto split: sum.splits)

lemma fallback_documents_complete:
  "\<forall>row \<in> set rows. map_of row ''id'' \<noteq> None \<and> map_of row ''content'' \<noteq> None
     \<Longrightarrow> \<exists>documents. fallback_documents rows = Inr documents
           \<and> map (\<lambda>d. (map_of d ''id'', map_of d ''content'')) documents
               = map (\<lambda>row. (map_of row ''id'', map_of row ''content'')) rows"
  by (induction rows) (auto simp: getitem_def split: sum.splits option.splits)

lemma fallback_search_returns: "\<exists>documents. fst (fallback_search c limit w) = Inr documents"
  by (auto simp: fallback_search_def split: prod.splits sum.splits)

lemma search_returns:
  "\<exists>documents. fst (search_similar_documents c q limit thr w) = Inr documents"
  using fallback_search_returns
  by (auto simp: search_similar_documents_def split: prod.splits sum.splits)

lemma search_primary_raises:
  "call_rpc c q thr limit w = (Inl e, w1)
     \<Longrightarrow> search_similar_documents c q limit thr w = fallback_search c limit w1"
  by (simp add: search_similar_documents_def search_similar_documents_try_def)

lemma fallback_select_raises:
  "call_select c limit w1 = (Inl e2, w2) \<Longrightarrow> fallback_search c limit w1 = (Inr [], w2)"
  by (simp add: fallback_search_def fallback_search_try_def)

lemma fallback_select_returns:
  assumes "call_select c limit w1 = (Inr data, w2)"
  shows "\<exists>documents. fallback_search c limit w1 = (Inr documents, w2)
           \<and> (\<forall>d \<in> set documents. map_of d ''similarity'' = Some (PyFloat 0.5))
           \<and> ((\<forall>row \<in> set (data_rows data). map_of row ''id'' \<noteq> None \<and> map_of row ''content'' \<noteq> None)
                 \<longrightarrow> map (\<lambda>d. (map_of d ''id'', map_of d ''content'')) documents
                       = map (\<lambda>row. (map_of row ''id'', map_of row ''content'')) (data_rows data))"
proof (cases "truthy data")
  case False
  then have "data_rows data = []" by (cases data rule: truthy.cases) auto
  with False assms show ?thesis
    by (simp add: fallback_search_def fallback_search_try_def)
next
  case True
  show ?thesis
  proof (cases "fallback_documents (data_rows data)")
    case (Inl e)
    then have "\<not> (\<forall>row \<in> set (data_rows data). map_of row ''id'' \<noteq> None \<and> map_of row ''content'' \<noteq> None)"
      using fallback_documents_complete [of "data_rows data"] by fastforce
    with Inl True assms show ?thesis
      by (auto simp: fallback_search_def fallback_search_try_def)
  next
    case (Inr documents)
    have "\<forall>d \<in> set documents. map_of d ''similarity'' = Some (PyFloat 0.5)"
      using fallback_documents_similarity [OF Inr] by blast
    moreover have "(\<forall>row \<in> set (data_rows data). map_of row ''id'' \<noteq> None \<and> map_of row ''content'' \<noteq> None)
        \<longrightarrow> map (\<lambda>d. (map_of d ''id'', map_of d ''content'')) documents
              = map (\<lambda>row. (map_of row ''id'', map_of row ''content'')) (data_rows data)"
      using fallback_documents_complete [of "data_rows data"] Inr by auto
    ultimately show ?thesis using Inr True assms
      by (simp add: fallback_search_def fallback_search_try_def)
  qed
qed

lemma calls_call_rpc:
  "call_rpc c q thr limit w = (r, w1) \<Longrightarrow> calls w1 = calls w @ [(Rpc_search q thr limit, r)]"
  by (auto simp: call_rpc_def split: prod.splits)

lemma calls_call_select:
  "call_select c limit w = (r, w1) \<Longrightarrow> calls w1 = calls w @ [(Select_limit limit, r)]"
  by (auto simp: call_select_def split: prod.splits)

lemma calls_fallback_search:
  "\<exists>r. calls (snd (fallback_search c limit w)) = calls w @ [(Select_limit limit, r)]"
  by (cases "call_select c limit w")
     (auto simp: fallback_search_def fallback_search_try_def dest: calls_call_select split: sum.splits)

lemma truthy_data_rows: "(if truthy data then data_rows data else []) = data_rows data"
  by (cases data rule: truthy.cases) auto

text \<open>
  Claim C3. \<open>search_similar_documents\<close> returns a list for every query, limit and
  threshold. When the ranked search raises, the result is that of the fallback: one
  unranked request for \<open>limit\<close> rows; when that request raises, the empty list;
  otherwise a list whose every entry has the similarity 0.5, one entry per row returned,
  with the row's id and content, whenever every row has both.
\<close>

theorem search_similar_documents_never_raises:
  "(\<exists>documents. fst (search_similar_documents c q limit thr w) = Inr documents)
   \<and> (\<forall>e w1. call_rpc c q thr limit w = (Inl e, w1) \<longrightarrow>
          search_similar_documents c q limit thr w = fallback_search c limit w1
        \<and> (\<exists>r. calls (snd (fallback_search c limit w1)) = calls w1 @ [(Select_limit limit, r)])
        \<and> (\<forall>e2 w2. call_select c limit w1 = (Inl e2, w2) \<longrightarrow>
              fallback_search c limit w1 = (Inr [], w2))
        \<and> (\<forall>data w2. call_select c limit w1 = (Inr data, w2) \<longrightarrow>
              (\<exists>documents. fallback_search c limit w1 = (Inr documents, w2)
                 \<and> (\<forall>d \<in> set documents. map_of d ''similarity'' = Some (PyFloat 0.5))
                 \<and> ((\<forall>row \<in> set (data_rows data).
                        map_of row ''id'' \<noteq> None \<and> map_of row ''content'' \<noteq> None)
                    \<longrightarrow> map (\<lambda>d. (map_of d ''id'', map_of d ''content'')) documents
                          = map (\<lambda>row. (map_of row ''id'', map_of row ''content''))
                              (data_rows data)))))"
proof (intro conjI allI impI)
  show "\<exists>documents. fst (search_similar_documents c q limit thr w) = Inr documents"
    by (rule search_returns)
next
  fix e w1
  assume "call_rpc c q thr limit w = (Inl e, w1)"
  then show "search_similar_documents c q limit thr w = fallback_search c limit w1"
    by (rule search_primary_raises)
next
  fix e w1
  show "\<exists>r. calls (snd (fallback_search c limit w1)) = calls w1 @ [(Select_limit limit, r)]"
    by (rule calls_fallback_search)
next
  fix e w1 e2 w2
  assume "call_select c limit w1 = (Inl e2, w2)"
  then show "fallback_search c limit w1 = (Inr [], w2)"
    by (rule fallback_select_raises)
next
  fix e w1 data w2
  assume "call_select c limit w1 = (Inr data, w2)"
  then show "\<exists>documents. fallback_search c limit w1 = (Inr documents, w2)
                 \<and> (\<forall>d \<in> set documents. map_of d ''similarity'' = Some (PyFloat 0.5))
                 \<and> ((\<forall>row \<in> set (data_rows data).
                        map_of row ''id'' \<noteq> None \<and> map_of row ''content'' \<noteq> None)
                    \<longrightarrow> map (\<lambda>d. (map_of d ''id'', map_of d ''content'')) documents
                          = map (\<lambda>row. (map_of row ''id'', map_of row ''content''))
                              (data_rows data))"
    by (rule fallback_select_returns)
qed

theorem search_similar_documents_never_raises_witness:
  "search_similar_documents
     \<lparr>rpc_search_documents_cosine = (\<lambda>v t l s. (Inl (Raise OtherError ''no such function''), s)),
      select_all_limit =
        (\<lambda>l s. (Inr (Some [[(''id'', PyInt 7), (''content'', PyStr ''note'')]]), s)),
      insert_documents = (\<lambda>rows s. (Inr None, s))\<rparr>
     [1] 5 0.6 \<lparr>store = (), calls = []\<rparr>
   = (Inr [[(''id'', PyInt 7), (''content'', PyStr ''note''),
            (''similarity'', PyFloat 0.5), (''created_at'', PyNone)]],
      \<lparr>store = (),
       calls = [(Rpc_search [1] 0.6 5, Inl (Raise OtherError ''no such function'')),
                (Select_limit 5,
                 Inr (Some [[(''id'', PyInt 7), (''content'', PyStr ''note'')]]))]\<rparr>)"
proof -
  let ?c = "\<lparr>rpc_search_documents_cosine = (\<lambda>v t l s. (Inl (Raise OtherError ''no such function''), s)),
      select_all_limit =
        (\<lambda>l s. (Inr (Some [[(''id'', PyInt 7), (''content'', PyStr ''note'')]]), s)),
      insert_documents = (\<lambda>rows s. (Inr None, s))\<rparr>"
  let ?w = "\<lparr>store = (), calls = []\<rparr>"
  let ?w1 = "\<lparr>store = (), calls = [(Rpc_search [1] 0.6 5, Inl (Raise OtherError ''no such function''))]\<rparr>"
  have p: "call_rpc ?c [1] 0.6 5 ?w = (Inl (Raise OtherError ''no such function''), ?w1)"
    by (simp add: call_rpc_def)
  from search_similar_documents_never_raises [of ?c "[1]" 5 "0.6" ?w] p
  have "search_similar_documents ?c [1] 5 0.6 ?w = fallback_search ?c 5 ?w1"
    by blast
  then show ?thesis
    by (simp add: fallback_search_def fallback_search_try_def call_select_def getitem_def
        dict_get_def)
qed

text \<open>
  Claim C4. When the ranked search returns no row at the caller's threshold, the search
  asks it once more, with the threshold 0.3 and the same limit, and makes no other ranked
  request. When the retry returns, its rows (none, possibly) are the result; when the
  retry raises, the result is that of the fallback.
\<close>

theorem search_relaxed_retry:
  assumes p: "call_rpc c q thr limit w = (Inr data, w1)" and e: "\<not> truthy data"
    and r: "call_rpc c q 0.3 limit w1 = (r2, w2)"
  shows "(\<forall>data2. r2 = Inr data2 \<longrightarrow>
            search_similar_documents c q limit thr w = (Inr (data_rows data2), w2))
       \<and> (\<forall>e2. r2 = Inl e2 \<longrightarrow>
            search_similar_documents c q limit thr w = fallback_search c limit w2)
       \<and> filter is_rpc (drop (length (calls w)) (calls (snd (search_similar_documents c q limit thr w))))
            = [(Rpc_search q thr limit, Inr data), (Rpc_search q 0.3 limit, r2)]"
proof -
  have c1: "calls w1 = calls w @ [(Rpc_search q thr limit, Inr data)]"
    using calls_call_rpc [OF p] .
  have c2: "calls w2 = calls w @ [(Rpc_search q thr limit, Inr data), (Rpc_search q 0.3 limit, r2)]"
    using calls_call_rpc [OF r] c1 by simp
  show ?thesis
  proof (cases r2)
    case (Inr data2)
    then have "search_similar_documents c q limit thr w = (Inr (data_rows data2), w2)"
      using p e r by (simp add: search_similar_documents_def search_similar_documents_try_def truthy_data_rows)
    then show ?thesis using Inr c2 by simp
  next
    case (Inl e2)
    then have s: "search_similar_documents c q limit thr w = fallback_search c limit w2"
      using p e r by (simp add: search_similar_documents_def search_similar_documents_try_def)
    obtain rs where "calls (snd (fallback_search c limit w2)) = calls w2 @ [(Select_limit limit, rs)]"
      using calls_fallback_search by blast
    then show ?thesis using Inl s c2 by simp
  qed
qed


theorem search_relaxed_retry_witness:
  "search_similar_documents
     \<lparr>rpc_search_documents_cosine =
        (\<lambda>v t l s. (Inr (if t = 0.3 then Some [[(''id'', PyInt 7)]] else Some []), s)),
      select_all_limit = (\<lambda>l s. (Inr None, s)),
      insert_documents = (\<lambda>rows s. (Inr None, s))\<rparr>
     [1] 5 0.6 \<lparr>store = (), calls = []\<rparr>
   = (Inr [[(''id'', PyInt 7)]],
      \<lparr>store = (),
       calls = [(Rpc_search [1] 0.6 5, Inr (Some [])),
                (Rpc_search [1] 0.3 5, Inr (Some [[(''id'', PyInt 7)]]))]\<rparr>)"
proof -
  let ?c = "\<lparr>rpc_search_documents_cosine =
        (\<lambda>v t l s. (Inr (if t = 0.3 then Some [[(''id'', PyInt 7)]] else Some []), s)),
      select_all_limit = (\<lambda>l s. (Inr None, s)),
      insert_documents = (\<lambda>rows s. (Inr None, s))\<rparr>"
  let ?w = "\<lparr>store = (), calls = []\<rparr>"
  let ?w1 = "\<lparr>store = (), calls = [(Rpc_search [1] 0.6 5, Inr (Some []))]\<rparr>"
  let ?w2 = "\<lparr>store = (),
       calls = [(Rpc_search [1] 0.6 5, Inr (Some [])),
                (Rpc_search [1] 0.3 5, Inr (Some [[(''id'', PyInt 7)]]))]\<rparr>"
  have p: "call_rpc ?c [1] 0.6 5 ?w = (Inr (Some []), ?w1)"
    by (simp add: call_rpc_def)
  have e: "\<not> truthy (Some [])" by simp
  have r: "call_rpc ?c [1] 0.3 5 ?w1 = (Inr (Some [[(''id'', PyInt 7)]]), ?w2)"
    by (simp add: call_rpc_def)
  from search_relaxed_retry [OF p e r]
  have "search_similar_documents ?c [1] 5 0.6 ?w = (Inr (data_rows (Some [[(''id'', PyInt 7)]])), ?w2)"
    by blast
  then show ?thesis by simp
qed

section \<open>Batch insertion keeps the batches already inserted\<close>










section \<open>The batch embedding operation and the cache it asks for\<close>

lemma get_cached_embedding_missing:
  "memory_optimizer_call ''get_cached_embedding'' arg args
     = Inl (Raise AttributeError ''get_cached_embedding'')"
  by (simp add: memory_optimizer_call_def memory_optimizer_getattr_def)

lemma probe_cache_raises:
  "texts \<noteq> [] \<Longrightarrow> probe_cache texts i all_embeddings uncached_texts uncached_indices
     = Inl (Raise AttributeError ''get_cached_embedding'')"
  by (cases texts) (simp_all add: get_cached_embedding_missing)

lemma generate_embeddings_batch_raises:
  "texts \<noteq> [] \<Longrightarrow> generate_embeddings_batch (Some encode) texts batch_size
     = (Inl (Raise RuntimeError ''Failed to generate batch embeddings''), [])"
  by (simp add: generate_embeddings_batch_def generate_embeddings_batch_try_def
      probe_cache_raises)

lemma generate_embeddings_batch_empty:
  "generate_embeddings_batch (Some encode) [] batch_size = (Inr [], [])"
  by (simp add: generate_embeddings_batch_def generate_embeddings_batch_try_def)

text \<open>
  Claim C1. The class of \<open>memory_optimizer\<close> has neither \<open>get_cached_embedding\<close> nor
  \<open>cache_embedding\<close>. A call of the batch operation on one text raises RuntimeError
  before any text reaches the model: no vector is returned and none is stored, the first
  time and every time after it.
\<close>

theorem generate_embeddings_batch_has_no_cache:
  "memory_optimizer_getattr ''get_cached_embedding''
     = Inl (Raise AttributeError ''get_cached_embedding'')
   \<and> memory_optimizer_getattr ''cache_embedding'' = Inl (Raise AttributeError ''cache_embedding'')
   \<and> generate_embeddings_batch (Some (\<lambda>texts n. Inr (map (\<lambda>t. [1]) texts))) [''hello''] 32
       = (Inl (Raise RuntimeError ''Failed to generate batch embeddings''), [])"
  by (simp add: memory_optimizer_getattr_def generate_embeddings_batch_def
      generate_embeddings_batch_try_def memory_optimizer_call_def)

text \<open>
  Claim C2. On three texts with the batch size 2 the batch operation raises RuntimeError
  where the claim has a list of three vectors.
\<close>

theorem generate_embeddings_batch_returns_no_list:
  "fst (generate_embeddings_batch (Some (\<lambda>texts n. Inr (map (\<lambda>t. [1]) texts)))
          [''a'', ''b'', ''c''] 2)
     = Inl (Raise RuntimeError ''Failed to generate batch embeddings'')"
  by (simp add: generate_embeddings_batch_def generate_embeddings_batch_try_def
      memory_optimizer_call_def memory_optimizer_getattr_def)

section \<open>The range of the similarity helper\<close>

lemma calculate_similarity_zero_norm:
  "length embedding1 = length embedding2
     \<Longrightarrow> linalg_norm embedding1 = 0 \<or> linalg_norm embedding2 = 0
     \<Longrightarrow> calculate_similarity embedding1 embedding2 = Inr 0"
  by (auto simp: calculate_similarity_def np_dot_def Let_def)

lemma calculate_similarity_zero_vector:
  "calculate_similarity [0, 0, 0] [1, 2, 3] = Inr 0"
  by (simp add: calculate_similarity_def np_dot_def linalg_norm_def)

text \<open>
  Claim C8. Two opposite vectors have the similarity \<open>-1\<close>, which is not in \<open>[0, 1]\<close>:
  the quotient is returned as computed.
\<close>

theorem calculate_similarity_negative:
  "calculate_similarity [1] [- 1] = Inr (- 1)"
  by (simp add: calculate_similarity_def np_dot_def linalg_norm_def)

section \<open>The length of sentence-preserving chunks\<close>

text \<open>
  Claim C5. Three sentences of 5 characters with the chunk size 10 and no overlap: the
  first two are joined by a space into a chunk of 11 characters. Two sentences of 8
  characters with the chunk size 10 and the overlap 5: the second chunk is the last 5
  characters of the first, a space and the second sentence, 14 characters.
\<close>

theorem chunk_text_exceeds_chunk_size:
  "split_into_sentences ''aaaa. bbbb. cccc.'' = [''aaaa.'', ''bbbb.'', ''cccc.'']
   \<and> chunk_text ''aaaa. bbbb. cccc.'' 10 0 True = Some [''aaaa. bbbb.'', ''cccc.'']
   \<and> length ''aaaa. bbbb.'' = 11
   \<and> split_into_sentences ''aaaaaaa. bbbbbbb.'' = [''aaaaaaa.'', ''bbbbbbb.'']
   \<and> chunk_text ''aaaaaaa. bbbbbbb.'' 10 5 True = Some [''aaaaaaa.'', ''aaaa. bbbbbbb.'']
   \<and> length ''aaaa. bbbbbbb.'' = 14"
  by code_simp

section \<open>Failures of the controller's entry points\<close>

lemma ask_question_response_shaped:
  "\<exists>r. map_of (fst (ask_question svc h q uc thr n)) ''response'' = Some (PyStr r)"
  by (auto simp: ask_question_def ask_question_try_def split: sum.splits)

lemma ask_question_error_field:
  "ask_question_try svc h q uc thr n = Inl e
     \<Longrightarrow> ask_question svc h q uc thr n
           = ([(''response'', PyStr (''I encountered an error: '' @ str_exn e)),
               (''error'', PyStr (str_exn e))], h)"
  by (simp add: ask_question_def)

lemma stream_response_failure_escapes:
  "stream_response_try svc h q uc thr n = Inl e
     \<Longrightarrow> fst (snd (stream_response svc h q uc thr n))
           = Some (Raise NameError ''name error_message is not defined'')"
  by (simp add: stream_response_def)

text \<open>
  Claim C6. When the embedding of the question fails, the stream yields the error text
  and then ends with NameError, which reaches the consumer of the generator.
\<close>

theorem stream_response_raises_name_error:
  "stream_response
     \<lparr>generate_embedding = (\<lambda>question. Inl (Raise RuntimeError ''Failed to generate embedding'')),
      search_similar_documents_of = (\<lambda>v limit t. Inr []),
      generate_response = (\<lambda>question context h. Inr ''ok''),
      llm_stream_response = (\<lambda>question context h. ([''ok''], None))\<rparr>
     [] ''hi'' True 0.6 5
   = ([''I encountered an error: Failed to generate embedding''],
      Some (Raise NameError ''name error_message is not defined''),
      [])"
  by (simp add: stream_response_def stream_response_try_def retrieve_context_def)

end
